theory Spec2Isabelle
  imports Complex_Main "HOL-Library.Sublist" "HOL-Library.Char_ord" "HOL-Library.List_Lexorder"
begin

section \<open>Python text\<close>

text \<open>
  A Python \<^verbatim>\<open>str\<close> is modelled as a HOL \<^typ>\<open>string\<close>: a list of characters, each a code
  point below 256. \<^verbatim>\<open>str.isspace\<close>, \<^verbatim>\<open>str.lower\<close> and \<^verbatim>\<open>str.upper\<close> are written out for
  that range as CPython's Unicode tables give them. Three characters of the range have an
  upper-case form outside it (U+00B5, U+00DF, U+00FF); the model leaves them unchanged.
\<close>

definition py_isspace :: "char \<Rightarrow> bool" where
  "py_isspace c =
     (let n = (of_char c :: nat)
      in (9 \<le> n \<and> n \<le> 13) \<or> (28 \<le> n \<and> n \<le> 32) \<or> n = 133 \<or> n = 160)"

definition py_strip :: "string \<Rightarrow> string" where
  "py_strip s = rev (dropWhile py_isspace (rev (dropWhile py_isspace s)))"

definition lower_char :: "char \<Rightarrow> char" where
  "lower_char c =
     (let n = (of_char c :: nat)
      in if (65 \<le> n \<and> n \<le> 90) \<or> (192 \<le> n \<and> n \<le> 222 \<and> n \<noteq> 215)
         then char_of (n + 32) else c)"

definition upper_char :: "char \<Rightarrow> char" where
  "upper_char c =
     (let n = (of_char c :: nat)
      in if (97 \<le> n \<and> n \<le> 122) \<or> (224 \<le> n \<and> n \<le> 254 \<and> n \<noteq> 247)
         then char_of (n - 32) else c)"

definition py_lower :: "string \<Rightarrow> string" where
  "py_lower s = map lower_char s"

definition py_upper :: "string \<Rightarrow> string" where
  "py_upper s = map upper_char s"

text \<open>\<^verbatim>\<open>s.startswith(p)\<close>.\<close>

definition startswith :: "string \<Rightarrow> string \<Rightarrow> bool" where
  "startswith s p = (take (length p) s = p)"

text \<open>\<^verbatim>\<open>x or ''\<close> for an argument that is a string or \<^verbatim>\<open>None\<close>.\<close>

definition or_empty :: "string option \<Rightarrow> string" where
  "or_empty x = (case x of None \<Rightarrow> [] | Some s \<Rightarrow> s)"

section \<open>Policy helpers (utils/drone/policy.py, DroneOpsService.required\_approvals)\<close>

definition required_approvals_for_action :: "string option \<Rightarrow> nat" where
  "required_approvals_for_action action_type =
     (let action = py_lower (py_strip (or_empty action_type))
      in if startswith action ''passive_'' then 1 else 2)"

definition required_approvals :: "string option \<Rightarrow> nat" where
  "required_approvals action_type =
     (let action = py_lower (py_strip (or_empty action_type))
      in if startswith action ''passive_'' then 1 else 2)"

section \<open>Policy state and arming (DroneOpsService, service.py lines 111-162)\<close>

text \<open>
  The four private fields of the service. Clock readings (\<^verbatim>\<open>time.time()\<close>, a float of
  seconds since the epoch) are real numbers, passed in as arguments where the code reads
  the clock.
\<close>

record policy =
  armed_until_ts :: "real option"
  armed_by :: "string option"
  arm_reason :: "string option"
  arm_incident_id :: "int option"

text \<open>
  The dictionary \<^verbatim>\<open>_policy_state_locked\<close> returns. \<^verbatim>\<open>armed_until\<close> is the ISO rendering of
  the timestamp in the code; the model keeps the timestamp.
\<close>

record policy_state =
  ps_armed :: bool
  ps_armed_by :: "string option"
  ps_arm_reason :: "string option"
  ps_arm_incident_id :: "int option"
  ps_armed_until :: "real option"
  ps_required_approvals_default :: nat

definition cleared :: policy where
  "cleared = \<lparr>armed_until_ts = None, armed_by = None, arm_reason = None, arm_incident_id = None\<rparr>"

text \<open>\<^verbatim>\<open>x if ts else None\<close>: a timestamp of 0.0 is falsy.\<close>

definition truthy_ts :: "real option \<Rightarrow> real option" where
  "truthy_ts ts = (case ts of None \<Rightarrow> None | Some u \<Rightarrow> if u = 0 then None else Some u)"

definition policy_state_locked :: "real \<Rightarrow> policy \<Rightarrow> policy_state \<times> policy" where
  "policy_state_locked now p =
     (let armed = (case armed_until_ts p of None \<Rightarrow> False | Some u \<Rightarrow> now < u);
          p' = (if armed then p else cleared)
      in (\<lparr>ps_armed = armed,
           ps_armed_by = armed_by p',
           ps_arm_reason = arm_reason p',
           ps_arm_incident_id = arm_incident_id p',
           ps_armed_until = truthy_ts (armed_until_ts p'),
           ps_required_approvals_default = 2\<rparr>, p'))"

definition get_policy_state :: "real \<Rightarrow> policy \<Rightarrow> policy_state \<times> policy" where
  "get_policy_state now p = policy_state_locked now p"

text \<open>
  \<^verbatim>\<open>max(60, min(7200, int(duration_seconds or 900)))\<close> for a duration that is an integer
  or \<^verbatim>\<open>None\<close>: 0 and \<^verbatim>\<open>None\<close> are falsy.
\<close>

definition effective_duration :: "int option \<Rightarrow> int" where
  "effective_duration duration_seconds =
     (let d = (case duration_seconds of None \<Rightarrow> 900 | Some n \<Rightarrow> if n = 0 then 900 else n)
      in max 60 (min 7200 d))"

text \<open>
  \<^verbatim>\<open>arm_actions\<close> reads the clock twice: \<open>t\<close> when it sets the deadline, \<open>t'\<close> inside
  \<^verbatim>\<open>_policy_state_locked\<close>.
\<close>

definition arm_actions ::
  "real \<Rightarrow> real \<Rightarrow> string \<Rightarrow> string \<Rightarrow> int \<Rightarrow> int option \<Rightarrow> policy \<Rightarrow> policy_state \<times> policy" where
  "arm_actions t t' actor reason incident_id duration_seconds p =
     policy_state_locked t'
       \<lparr>armed_until_ts = Some (t + real_of_int (effective_duration duration_seconds)),
        armed_by = Some actor,
        arm_reason = Some reason,
        arm_incident_id = Some incident_id\<rparr>"

definition disarm_actions :: "real \<Rightarrow> policy \<Rightarrow> policy_state \<times> policy" where
  "disarm_actions now p = policy_state_locked now cleared"

text \<open>A run of \<^verbatim>\<open>get_policy_state\<close> calls, one per clock reading, oldest first.\<close>

fun state_calls :: "real list \<Rightarrow> policy \<Rightarrow> policy_state list \<times> policy" where
  "state_calls [] p = ([], p)"
| "state_calls (t # ts) p =
     (let (r, p') = get_policy_state t p;
          (rs, p'') = state_calls ts p'
      in (r # rs, p''))"


section \<open>Python values\<close>

text \<open>
  The values that travel in events, payloads and store rows: \<^verbatim>\<open>None\<close>, booleans, integers,
  floats, strings, lists and dictionaries with string keys. A dictionary is an association
  list in insertion order; lookup takes the first entry of a key. Floats are exact real
  numbers: rounding error, infinities and NaN are outside the model.
\<close>

datatype pyval =
    PNone
  | PBool bool
  | PInt int
  | PFloat real
  | PStr string
  | PList "pyval list"
  | PDict "(string \<times> pyval) list"

type_synonym pydict = "(string \<times> pyval) list"

text \<open>Truthiness, as \<^verbatim>\<open>bool(x)\<close>, \<^verbatim>\<open>if x\<close> and \<^verbatim>\<open>x or y\<close> read it.\<close>

fun py_truthy :: "pyval \<Rightarrow> bool" where
  "py_truthy PNone = False"
| "py_truthy (PBool b) = b"
| "py_truthy (PInt n) = (n \<noteq> 0)"
| "py_truthy (PFloat x) = (x \<noteq> 0)"
| "py_truthy (PStr s) = (s \<noteq> [])"
| "py_truthy (PList xs) = (xs \<noteq> [])"
| "py_truthy (PDict kvs) = (kvs \<noteq> [])"

text \<open>\<^verbatim>\<open>a or b\<close>.\<close>

definition py_or :: "pyval \<Rightarrow> pyval \<Rightarrow> pyval" where
  "py_or a b = (if py_truthy a then a else b)"

text \<open>\<^verbatim>\<open>d.get(k)\<close>: \<^verbatim>\<open>None\<close> for a missing key.\<close>

definition dict_get :: "pydict \<Rightarrow> string \<Rightarrow> pyval" where
  "dict_get d k = (case map_of d k of None \<Rightarrow> PNone | Some v \<Rightarrow> v)"

text \<open>\<^verbatim>\<open>k in d\<close>.\<close>

definition dict_has :: "pydict \<Rightarrow> string \<Rightarrow> bool" where
  "dict_has d k = (map_of d k \<noteq> None)"

text \<open>Decimal digits of a natural number and of an integer, as \<^verbatim>\<open>str(n)\<close> prints them.\<close>

function str_of_nat :: "nat \<Rightarrow> string" where
  "str_of_nat n =
     (if n < 10 then [char_of (48 + n)]
      else str_of_nat (n div 10) @ [char_of (48 + n mod 10)])"
  by pat_completeness auto
termination
  by (relation "measure id") auto

definition str_of_int :: "int \<Rightarrow> string" where
  "str_of_int i = (if i < 0 then CHR ''-'' # str_of_nat (nat (- i)) else str_of_nat (nat i))"


section \<open>Action requests: the store\<close>

text \<open>
  The rows of \<^verbatim>\<open>action_requests\<close>, \<^verbatim>\<open>action_approvals\<close> and \<^verbatim>\<open>action_audit_log\<close> as the
  service reads them. Timestamps the store adds (\<^verbatim>\<open>requested_at\<close>, \<^verbatim>\<open>decided_at\<close>, ...) are left out.
\<close>

record approval =
  ap_approved_by :: string
  ap_decision :: string
  ap_notes :: "string option"

record action_request =
  rq_id :: int
  rq_incident_id :: int
  rq_action_type :: string
  rq_requested_by :: string
  rq_payload :: pyval
  rq_status :: string
  rq_approvals :: "approval list"
  rq_executed_by :: "string option"

record audit_entry =
  au_request_id :: int
  au_event_type :: string
  au_actor :: string
  au_details :: pydict

text \<open>
  The service: its policy fields, the three tables, the next identifier the store hands out,
  and the types of the events emitted so far (oldest first; envelopes' timestamps and
  payloads are left out).
\<close>

record service =
  sv_policy :: policy
  sv_requests :: "int \<Rightarrow> action_request option"
  sv_next_id :: int
  sv_audit :: "audit_entry list"
  sv_emitted :: "string list"

definition empty_service :: service where
  "empty_service =
     \<lparr>sv_policy = cleared, sv_requests = (\<lambda>_. None), sv_next_id = 1, sv_audit = [],
      sv_emitted = []\<rparr>"

definition emit :: "string \<Rightarrow> service \<Rightarrow> service" where
  "emit event_type s = s\<lparr>sv_emitted := sv_emitted s @ [event_type]\<rparr>"

text \<open>
  Modelled from the spec: the store functions of \<^verbatim>\<open>utils.database\<close> that the action
  workflow calls (\<^verbatim>\<open>get_action_request\<close>, \<^verbatim>\<open>create_action_request\<close>, \<^verbatim>\<open>add_action_approval\<close>,
  \<^verbatim>\<open>add_action_audit_log\<close>, \<^verbatim>\<open>update_action_request_status\<close>) are not among the sources. The
  spec treats the persistence layer as an opaque CRUD store with identifiers assigned
  monotonically, requests created in status \<^verbatim>\<open>pending\<close> with their approvals embedded, and
  append-only approvals and audit entries; the definitions below are that store.
\<close>

definition get_action_request :: "service \<Rightarrow> int \<Rightarrow> action_request option" where
  "get_action_request s request_id = sv_requests s request_id"

definition create_action_request ::
  "int \<Rightarrow> string \<Rightarrow> string \<Rightarrow> pyval \<Rightarrow> service \<Rightarrow> int \<times> service" where
  "create_action_request incident action requested_by payload s =
     (let request_id = sv_next_id s;
          row = \<lparr>rq_id = request_id, rq_incident_id = incident, rq_action_type = action,
                 rq_requested_by = requested_by, rq_payload = payload,
                 rq_status = ''pending'', rq_approvals = [], rq_executed_by = None\<rparr>
      in (request_id,
          s\<lparr>sv_requests := (sv_requests s)(request_id \<mapsto> row),
            sv_next_id := request_id + 1\<rparr>))"

definition add_action_approval ::
  "int \<Rightarrow> string \<Rightarrow> string \<Rightarrow> string option \<Rightarrow> service \<Rightarrow> service" where
  "add_action_approval request_id approved_by decision notes s =
     (case sv_requests s request_id of
        None \<Rightarrow> s
      | Some row \<Rightarrow>
          s\<lparr>sv_requests := (sv_requests s)(request_id \<mapsto>
               row\<lparr>rq_approvals := rq_approvals row @
                 [\<lparr>ap_approved_by = approved_by, ap_decision = decision, ap_notes = notes\<rparr>]\<rparr>)\<rparr>)"

definition add_action_audit_log ::
  "int \<Rightarrow> string \<Rightarrow> string \<Rightarrow> pydict \<Rightarrow> service \<Rightarrow> service" where
  "add_action_audit_log request_id event_type actor details s =
     s\<lparr>sv_audit := sv_audit s @
        [\<lparr>au_request_id = request_id, au_event_type = event_type, au_actor = actor,
          au_details = details\<rparr>]\<rparr>"

definition update_action_request_status ::
  "int \<Rightarrow> string \<Rightarrow> string option \<Rightarrow> service \<Rightarrow> service" where
  "update_action_request_status request_id new_status executed_by s =
     (case sv_requests s request_id of
        None \<Rightarrow> s
      | Some row \<Rightarrow>
          s\<lparr>sv_requests := (sv_requests s)(request_id \<mapsto>
               row\<lparr>rq_status := new_status,
                   rq_executed_by :=
                     (case executed_by of None \<Rightarrow> rq_executed_by row | Some a \<Rightarrow> Some a)\<rparr>)\<rparr>)"

section \<open>Action requests: the workflow (service.py lines 444-545)\<close>

text \<open>
  The dictionary the workflow returns: the stored row, with the two keys the service adds
  on the paths that add them.
\<close>

record request_view =
  rv_request :: action_request
  rv_required_approvals :: "nat option"
  rv_approved_count :: "nat option"

text \<open>
  \<^verbatim>\<open>len([a for a in approvals if str(a.get('decision')).lower() == 'approved'])\<close>
\<close>

definition count_approved :: "approval list \<Rightarrow> nat" where
  "count_approved approvals =
     length (filter (\<lambda>a. py_lower (ap_decision a) = ''approved'') approvals)"

text \<open>
  \<^verbatim>\<open>any((a.get('approved_by') or '').lower() == approver.lower() for a in approvals)\<close>
\<close>

definition already_decided :: "string \<Rightarrow> approval list \<Rightarrow> bool" where
  "already_decided approver approvals =
     list_ex (\<lambda>a. py_lower (ap_approved_by a) = py_lower approver) approvals"

definition request_action ::
  "int \<Rightarrow> string \<Rightarrow> string \<Rightarrow> pyval \<Rightarrow> service \<Rightarrow> request_view option \<times> service" where
  "request_action incident action requested_by payload s =
     (let (request_id, s1) = create_action_request incident action requested_by payload s;
          s2 = add_action_audit_log request_id ''requested'' requested_by
                 [(''payload'', py_or payload (PDict []))] s1
      in case get_action_request s2 request_id of
           None \<Rightarrow> (None, s2)
         | Some req \<Rightarrow>
             (Some \<lparr>rv_request = req,
                    rv_required_approvals = Some (required_approvals (Some (rq_action_type req))),
                    rv_approved_count = None\<rparr>,
              emit ''action_requested'' s2))"

definition approve_action ::
  "int \<Rightarrow> string \<Rightarrow> string \<Rightarrow> string option \<Rightarrow> service \<Rightarrow> request_view option \<times> service" where
  "approve_action request_id approver decision notes s =
     (case get_action_request s request_id of
        None \<Rightarrow> (None, s)
      | Some req \<Rightarrow>
          if already_decided approver (rq_approvals req)
          then (Some \<lparr>rv_request = req, rv_required_approvals = None, rv_approved_count = None\<rparr>, s)
          else
            let s1 = add_action_approval request_id approver decision notes s;
                s2 = add_action_audit_log request_id ''approval'' approver
                       [(''decision'', PStr decision),
                        (''notes'', case notes of None \<Rightarrow> PNone | Some n \<Rightarrow> PStr n)] s1
            in case get_action_request s2 request_id of
                 None \<Rightarrow> (None, s2)
               | Some req2 \<Rightarrow>
                   let approved_count = count_approved (rq_approvals req2);
                       required = required_approvals (Some (rq_action_type req2));
                       s3 = (if py_lower decision = ''rejected''
                             then update_action_request_status request_id ''rejected'' None s2
                             else if required \<le> approved_count
                                     \<and> rq_status req2 \<notin> {''executed'', ''rejected''}
                             then update_action_request_status request_id ''approved'' None s2
                             else s2)
                   in case get_action_request s3 request_id of
                        None \<Rightarrow> (None, s3)
                      | Some req3 \<Rightarrow>
                          (Some \<lparr>rv_request = req3, rv_required_approvals = Some required,
                                 rv_approved_count = Some approved_count\<rparr>,
                           emit ''action_approved'' s3))"

text \<open>
  \<^verbatim>\<open>execute_action\<close> returns the request (or \<^verbatim>\<open>None\<close>) and an error message (or \<^verbatim>\<open>None\<close>).
  \<open>now\<close> is the clock reading of its policy read.
\<close>

definition execute_action ::
  "real \<Rightarrow> int \<Rightarrow> string \<Rightarrow> service \<Rightarrow> (request_view option \<times> string option) \<times> service" where
  "execute_action now request_id actor s =
     (case get_action_request s request_id of
        None \<Rightarrow> ((None, Some ''Action request not found''), s)
      | Some req \<Rightarrow>
          let (pstate, pol) = get_policy_state now (sv_policy s);
              s0 = s\<lparr>sv_policy := pol\<rparr>
          in if \<not> ps_armed pstate then ((None, Some ''Action plane is not armed''), s0)
             else
               let approved_count = count_approved (rq_approvals req);
                   required = required_approvals (Some (rq_action_type req))
               in if approved_count < required
                  then ((None, Some (''Insufficient approvals ('' @ str_of_nat approved_count
                                      @ ''/'' @ str_of_nat required @ '')'')), s0)
                  else
                    let s1 = update_action_request_status request_id ''executed'' (Some actor) s0;
                        s2 = add_action_audit_log request_id ''executed'' actor
                               [(''dispatch'', PStr ''framework''),
                                (''note'', PStr ''Execution recorded. Attach route-specific handlers per action_type.'')]
                               s1
                    in case get_action_request s2 request_id of
                         None \<Rightarrow> ((None, None), s2)
                       | Some req2 \<Rightarrow>
                           ((Some \<lparr>rv_request = req2, rv_required_approvals = Some required,
                                   rv_approved_count = Some approved_count\<rparr>, None),
                            emit ''action_executed'' s2))"

text \<open>Calls on the service, and a run of them from a given state.\<close>

datatype api_call =
    Request_action int string string pyval
  | Approve_action int string string "string option"
  | Execute_action real int string
  | Arm_actions real real string string int "int option"
  | Disarm_actions real
  | Get_policy_state real

fun api_step :: "service \<Rightarrow> api_call \<Rightarrow> service" where
  "api_step s (Request_action incident action requested_by payload) =
     snd (request_action incident action requested_by payload s)"
| "api_step s (Approve_action request_id approver decision notes) =
     snd (approve_action request_id approver decision notes s)"
| "api_step s (Execute_action now request_id actor) =
     snd (execute_action now request_id actor s)"
| "api_step s (Arm_actions t t' actor reason incident duration_seconds) =
     emit ''policy_armed''
       (s\<lparr>sv_policy := snd (arm_actions t t' actor reason incident duration_seconds (sv_policy s))\<rparr>)"
| "api_step s (Disarm_actions now) =
     emit ''policy_disarmed'' (s\<lparr>sv_policy := snd (disarm_actions now (sv_policy s))\<rparr>)"
| "api_step s (Get_policy_state now) =
     s\<lparr>sv_policy := snd (get_policy_state now (sv_policy s))\<rparr>"

definition run_calls :: "service \<Rightarrow> api_call list \<Rightarrow> service" where
  "run_calls s calls = foldl api_step s calls"

text \<open>At most one approval per approver on every stored request, names compared lower-cased.\<close>

definition one_approval_per_approver :: "service \<Rightarrow> bool" where
  "one_approval_per_approver s =
     (\<forall>request_id req. sv_requests s request_id = Some req \<longrightarrow>
        distinct (map (\<lambda>a. py_lower (ap_approved_by a)) (rq_approvals req)))"

text \<open>
  A run on one passive request: approved by one supervisor, rejected by a second, executed
  while armed, rejected by a third.
\<close>

definition veto_then_execute_calls :: "api_call list" where
  "veto_then_execute_calls =
     [Request_action 7 ''passive_spectrum_capture'' ''op1'' (PDict []),
      Approve_action 1 ''supervisor-a'' ''approved'' None,
      Approve_action 1 ''supervisor-b'' ''rejected'' None,
      Arm_actions 1000 1000 ''op1'' ''drill'' 7 None,
      Execute_action 1001 1 ''op1'',
      Approve_action 1 ''supervisor-c'' ''rejected'' None]"

definition status_after :: "nat \<Rightarrow> api_call list \<Rightarrow> string option" where
  "status_after n calls =
     map_option rq_status (sv_requests (run_calls empty_service (take n calls)) 1)"


section \<open>Library functions taken as parameters\<close>

text \<open>
  Functions of Python's standard library that the decoder and the detectors call and whose
  results depend on text syntax: \<^verbatim>\<open>float(s)\<close> on a string (\<^verbatim>\<open>None\<close> where it raises
  \<^verbatim>\<open>ValueError\<close>), \<^verbatim>\<open>json.loads\<close> (\<^verbatim>\<open>None\<close> where it raises \<^verbatim>\<open>JSONDecodeError\<close>),
  \<^verbatim>\<open>bytes.decode('utf-8', errors='replace')\<close>, \<^verbatim>\<open>str(x)\<close> on floats, lists and dictionaries, and
  the first group of \<^verbatim>\<open>re.search(r'([0-9]{2,4}(?:\.[0-9]+)?)\s*MHz', text, re.IGNORECASE)\<close>.
  Every definition below that needs one takes the record as its first argument, and every
  theorem holds for all of its values.
\<close>

record pylib =
  lib_float_of_str :: "string \<Rightarrow> real option"
  lib_json_loads :: "string \<Rightarrow> pyval option"
  lib_utf8_decode :: "nat list \<Rightarrow> string"
  lib_repr :: "pyval \<Rightarrow> string"
  lib_search_mhz :: "string \<Rightarrow> string option"

text \<open>\<^verbatim>\<open>str(x)\<close>.\<close>

definition py_str :: "pylib \<Rightarrow> pyval \<Rightarrow> string" where
  "py_str lib v =
     (case v of
        PStr s \<Rightarrow> s
      | PNone \<Rightarrow> ''None''
      | PBool b \<Rightarrow> (if b then ''True'' else ''False'')
      | PInt n \<Rightarrow> str_of_int n
      | _ \<Rightarrow> lib_repr lib v)"

text \<open>\<^verbatim>\<open>float(x)\<close>: \<^verbatim>\<open>None\<close> where it raises \<^verbatim>\<open>TypeError\<close> or \<^verbatim>\<open>ValueError\<close>.\<close>

definition py_float :: "pylib \<Rightarrow> pyval \<Rightarrow> real option" where
  "py_float lib v =
     (case v of
        PBool b \<Rightarrow> Some (if b then 1 else 0)
      | PInt n \<Rightarrow> Some (of_int n)
      | PFloat x \<Rightarrow> Some x
      | PStr s \<Rightarrow> lib_float_of_str lib s
      | _ \<Rightarrow> None)"

text \<open>
  \<^verbatim>\<open>round(x, ndigits)\<close> on a float: to the nearest multiple of \<open>10^-ndigits\<close>, a tie going to
  the even one.
\<close>

definition py_round :: "nat \<Rightarrow> real \<Rightarrow> real" where
  "py_round ndigits x =
     (let m = (10::real) ^ ndigits;
          y = x * m;
          f = \<lfloor>y\<rfloor>;
          r = y - of_int f;
          n = (if r < 1/2 then f else if 1/2 < r then f + 1 else if even f then f else f + 1)
      in of_int n / m)"

text \<open>\<^verbatim>\<open>s.split(c)\<close> for a one-character separator.\<close>

fun split_on :: "char \<Rightarrow> string \<Rightarrow> string list" where
  "split_on c [] = [[]]"
| "split_on c (x # xs) =
     (if x = c then [] # split_on c xs
      else (case split_on c xs of [] \<Rightarrow> [[x]] | w # ws \<Rightarrow> (x # w) # ws))"

section \<open>Remote-ID decoder (utils/drone/remote\_id.py)\<close>

definition DRONE_ID_KEYS :: "string list" where
  "DRONE_ID_KEYS = [''uas_id'', ''drone_id'', ''serial_number'', ''serial'', ''id'', ''uasId'']"

definition OPERATOR_ID_KEYS :: "string list" where
  "OPERATOR_ID_KEYS = [''operator_id'', ''pilot_id'', ''operator'', ''operatorId'']"

definition LAT_KEYS :: "string list" where
  "LAT_KEYS = [''lat'', ''latitude'']"

definition LON_KEYS :: "string list" where
  "LON_KEYS = [''lon'', ''lng'', ''longitude'']"

definition ALT_KEYS :: "string list" where
  "ALT_KEYS = [''alt'', ''altitude'', ''altitude_m'', ''height'']"

definition SPEED_KEYS :: "string list" where
  "SPEED_KEYS = [''speed'', ''speed_mps'', ''ground_speed'']"

definition HEADING_KEYS :: "string list" where
  "HEADING_KEYS = [''heading'', ''heading_deg'', ''course'']"

text \<open>
  The inner loop of \<^verbatim>\<open>_get_nested\<close>: follow the parts of one path; \<^verbatim>\<open>None\<close> when the path
  is not valid.
\<close>

fun follow_path :: "pyval \<Rightarrow> string list \<Rightarrow> pyval option" where
  "follow_path current [] = Some current"
| "follow_path current (part # parts) =
     (case current of
        PDict d \<Rightarrow> (case map_of d part of None \<Rightarrow> None | Some v \<Rightarrow> follow_path v parts)
      | _ \<Rightarrow> None)"

fun get_nested :: "pydict \<Rightarrow> string list \<Rightarrow> pyval" where
  "get_nested data [] = PNone"
| "get_nested data (path # paths) =
     (case follow_path (PDict data) (split_on CHR ''.'' path) of
        Some current \<Rightarrow> current
      | None \<Rightarrow> get_nested data paths)"

definition coerce_float :: "pylib \<Rightarrow> pyval \<Rightarrow> real option" where
  "coerce_float lib v = (if v = PNone \<or> v = PStr [] then None else py_float lib v)"

text \<open>The second loop of \<^verbatim>\<open>_pick\<close>, over the paths \<^verbatim>\<open>prefix.key\<close> in its order.\<close>

fun first_nested_hit :: "pydict \<Rightarrow> string list \<Rightarrow> pyval" where
  "first_nested_hit data [] = PNone"
| "first_nested_hit data (path # paths) =
     (let hit = get_nested data [path]
      in if hit = PNone then first_nested_hit data paths else hit)"

definition pick :: "pydict \<Rightarrow> string list \<Rightarrow> string list \<Rightarrow> pyval" where
  "pick data keys nested_prefixes =
     (case find (dict_has data) keys of
        Some k \<Rightarrow> dict_get data k
      | None \<Rightarrow>
          first_nested_hit data
            (concat (map (\<lambda>prefix. map (\<lambda>k. prefix @ ''.'' @ k) keys) nested_prefixes)))"

text \<open>The payload of the decoder: a Python value, or a byte string.\<close>

datatype payload = Obj pyval | Bytes "nat list"

definition normalize_input :: "pylib \<Rightarrow> payload \<Rightarrow> pydict \<times> string" where
  "normalize_input lib p =
     (case p of
        Obj (PDict d) \<Rightarrow> (d, ''dict'')
      | _ \<Rightarrow>
          let txt = py_strip (case p of
                                Bytes bs \<Rightarrow> lib_utf8_decode lib bs
                              | Obj v \<Rightarrow> py_str lib (py_or v (PStr [])))
          in if txt = [] then ([], ''empty'')
             else (case lib_json_loads lib txt of
                     Some (PDict d) \<Rightarrow> (d, ''json'')
                   | _ \<Rightarrow> ([(''raw'', PStr txt)], ''raw'')))"

record remote_id =
  rid_detected :: bool
  rid_source_format :: string
  rid_uas_id :: "string option"
  rid_operator_id :: "string option"
  rid_lat :: "real option"
  rid_lon :: "real option"
  rid_altitude_m :: "real option"
  rid_speed_mps :: "real option"
  rid_heading_deg :: "real option"
  rid_confidence :: real
  rid_raw :: pydict

definition decode_remote_id_payload :: "pylib \<Rightarrow> payload \<Rightarrow> remote_id" where
  "decode_remote_id_payload lib p =
     (let (data, fmt) = normalize_input lib p;
          drone_id = pick data DRONE_ID_KEYS [''remote_id'', ''message'', ''uas''];
          operator_id = pick data OPERATOR_ID_KEYS [''remote_id'', ''message'', ''operator''];
          lat = coerce_float lib (pick data LAT_KEYS [''remote_id'', ''message'', ''position'']);
          lon = coerce_float lib (pick data LON_KEYS [''remote_id'', ''message'', ''position'']);
          altitude_m = coerce_float lib (pick data ALT_KEYS [''remote_id'', ''message'', ''position'']);
          speed_mps = coerce_float lib (pick data SPEED_KEYS [''remote_id'', ''message'', ''position'']);
          heading_deg = coerce_float lib (pick data HEADING_KEYS [''remote_id'', ''message'', ''position'']);
          c0 = (0::real);
          c1 = (if py_truthy drone_id then c0 + 0.35 else c0);
          c2 = (if lat \<noteq> None \<and> lon \<noteq> None then c1 + 0.35 else c1);
          c3 = (if altitude_m \<noteq> None then c2 + 0.15 else c2);
          c4 = (if py_truthy operator_id then c3 + 0.15 else c3);
          confidence = min 1 (py_round 3 c4);
          detected = (py_truthy drone_id \<or> (lat \<noteq> None \<and> lon \<noteq> None \<and> 0.35 \<le> confidence))
      in \<lparr>rid_detected = detected,
          rid_source_format = fmt,
          rid_uas_id = (if py_truthy drone_id then Some (py_strip (py_str lib drone_id)) else None),
          rid_operator_id =
            (if py_truthy operator_id then Some (py_strip (py_str lib operator_id)) else None),
          rid_lat = lat,
          rid_lon = lon,
          rid_altitude_m = altitude_m,
          rid_speed_mps = speed_mps,
          rid_heading_deg = heading_deg,
          rid_confidence = confidence,
          rid_raw = data\<rparr>)"


section \<open>Signature detectors (utils/drone/detector.py)\<close>







































section \<open>Evaluation rules\<close>

lemmas text_eval =
  or_empty_def py_strip_def py_lower_def py_upper_def py_isspace_def lower_char_def
  upper_char_def startswith_def char_of_def bit_0

lemmas policy_eval =
  get_policy_state_def policy_state_locked_def arm_actions_def disarm_actions_def
  effective_duration_def truthy_ts_def cleared_def

lemmas workflow_eval =
  run_calls_def request_action_def approve_action_def execute_action_def
  get_action_request_def create_action_request_def add_action_approval_def
  add_action_audit_log_def update_action_request_status_def emit_def empty_service_def
  already_decided_def count_approved_def required_approvals_def py_or_def Let_def


lemmas decode_eval =
  decode_remote_id_payload_def normalize_input_def pick_def coerce_float_def py_float_def
  py_str_def py_or_def dict_get_def dict_has_def DRONE_ID_KEYS_def OPERATOR_ID_KEYS_def
  LAT_KEYS_def LON_KEYS_def ALT_KEYS_def SPEED_KEYS_def HEADING_KEYS_def Let_def


section \<open>Properties of the text helpers\<close>

lemma startswith_iff_prefix: "startswith s p \<longleftrightarrow> prefix p s"
  unfolding startswith_def prefix_def
  by (metis append_eq_conv_conj append_take_drop_id)

lemma py_strip_decomp:
  "\<exists>l r. s = l @ py_strip s @ r \<and> list_all py_isspace l \<and> list_all py_isspace r"
proof -
  let ?a = "takeWhile py_isspace s"
  let ?b = "dropWhile py_isspace s"
  let ?c = "rev (takeWhile py_isspace (rev ?b))"
  have "rev ?b = takeWhile py_isspace (rev ?b) @ dropWhile py_isspace (rev ?b)"
    by simp
  then have "?b = py_strip s @ ?c"
    unfolding py_strip_def by (metis rev_append rev_rev_ident)
  then have "s = ?a @ py_strip s @ ?c"
    by (metis takeWhile_dropWhile_id)
  moreover have "list_all py_isspace ?a"
    by (simp add: list_all_iff) (meson set_takeWhileD)
  moreover have "list_all py_isspace ?c"
    by (simp add: list_all_iff) (meson set_takeWhileD)
  ultimately show ?thesis by blast
qed

lemma py_strip_no_outer_space:
  "py_strip s = [] \<or> (\<not> py_isspace (hd (py_strip s)) \<and> \<not> py_isspace (last (py_strip s)))"
proof (cases "py_strip s = []")
  case True
  then show ?thesis by simp
next
  case False
  let ?b = "dropWhile py_isspace s"
  let ?d = "dropWhile py_isspace (rev ?b)"
  from False have d: "?d \<noteq> []" by (simp add: py_strip_def)
  then have hd_d: "\<not> py_isspace (hd ?d)" by (rule hd_dropWhile)
  have last: "last (py_strip s) = hd ?d"
    by (simp only: py_strip_def last_rev)
  have "?b \<noteq> []"
  proof
    assume "?b = []"
    then have "?d = []" by (simp only: rev.simps dropWhile.simps)
    with d show False by (simp only:)
  qed
  then have hb: "\<not> py_isspace (hd ?b)" by (rule hd_dropWhile)
  have "rev ?b = takeWhile py_isspace (rev ?b) @ ?d" by simp
  then have "?b = rev ?d @ rev (takeWhile py_isspace (rev ?b))"
    by (metis rev_append rev_rev_ident)
  then have "hd ?b = hd (rev ?d)"
    using d by (metis hd_append2 rev_is_Nil_conv)
  then have "\<not> py_isspace (hd (py_strip s))"
    using hb by (simp add: py_strip_def)
  with last hd_d False show ?thesis by simp
qed


section \<open>Required approvals\<close>

text \<open>
  Claim C4. For every action type \<open>A\<close> (a string, or \<^verbatim>\<open>None\<close>), the required number of
  approvals is 1 when the trimmed, lower-cased text starts with \<^verbatim>\<open>passive_\<close> and 2 otherwise;
  the helper of policy.py and the static method of the service agree.
\<close>

theorem required_approvals_passive_prefix:
  "required_approvals A =
     (if prefix ''passive_'' (py_lower (py_strip (or_empty A))) then 1 else 2)
   \<and> required_approvals_for_action A = required_approvals A"
  by (simp add: required_approvals_def required_approvals_for_action_def startswith_iff_prefix)

theorem required_approvals_passive_prefix_witness:
  "required_approvals (Some '' Passive_Scan'') = 1
   \<and> required_approvals (Some ''wifi_deauth_test'') = 2
   \<and> required_approvals (Some []) = 2
   \<and> required_approvals None = 2
   \<and> required_approvals_for_action (Some ''PASSIVE_x  '') = 1"
  using required_approvals_passive_prefix [of "Some '' Passive_Scan''"]
    required_approvals_passive_prefix [of "Some ''wifi_deauth_test''"]
    required_approvals_passive_prefix [of "Some []"]
    required_approvals_passive_prefix [of None]
    required_approvals_passive_prefix [of "Some ''PASSIVE_x  ''"]
  by (simp add: or_empty_def py_strip_def py_lower_def py_isspace_def lower_char_def char_of_def bit_0)


section \<open>Arming\<close>

text \<open>
  Claim C10. A duration of 0 or \<^verbatim>\<open>None\<close> falls back to 900 seconds before the clamp to
  [60, 7200] is applied: the deadline is the clock reading plus 900, not plus 60. The
  state read that ends \<^verbatim>\<open>arm_actions\<close> happens at \<open>t'\<close>, before the deadline.
\<close>

theorem arm_actions_falsy_duration_default:
  assumes "d = None \<or> d = Some 0" and "0 \<le> t" and "t' < t + 900"
  shows "effective_duration d = 900 \<and>
         arm_actions t t' actor reason incident d p =
           (\<lparr>ps_armed = True, ps_armed_by = Some actor, ps_arm_reason = Some reason,
             ps_arm_incident_id = Some incident, ps_armed_until = Some (t + 900),
             ps_required_approvals_default = 2\<rparr>,
            \<lparr>armed_until_ts = Some (t + 900), armed_by = Some actor, arm_reason = Some reason,
             arm_incident_id = Some incident\<rparr>)"
proof -
  from assms(1) have d: "effective_duration d = 900"
    by (auto simp: effective_duration_def)
  from assms(2) have "t + 900 \<noteq> 0" by simp
  with assms(3) d show ?thesis
    by (simp add: arm_actions_def policy_state_locked_def truthy_ts_def)
qed

theorem arm_actions_falsy_duration_default_witness:
  "arm_actions 1000 1000.5 ''op1'' ''drill'' 42 (Some 0) cleared =
     (\<lparr>ps_armed = True, ps_armed_by = Some ''op1'', ps_arm_reason = Some ''drill'',
       ps_arm_incident_id = Some 42, ps_armed_until = Some 1900,
       ps_required_approvals_default = 2\<rparr>,
      \<lparr>armed_until_ts = Some 1900, armed_by = Some ''op1'', arm_reason = Some ''drill'',
       arm_incident_id = Some 42\<rparr>)
   \<and> snd (arm_actions 1000 1000.5 ''op1'' ''drill'' 42 None cleared) =
      \<lparr>armed_until_ts = Some 1900, armed_by = Some ''op1'', arm_reason = Some ''drill'',
       arm_incident_id = Some 42\<rparr>"
  using arm_actions_falsy_duration_default [of "Some 0" 1000 "1000.5" "''op1''" "''drill''" 42 cleared]
    arm_actions_falsy_duration_default [of None 1000 "1000.5" "''op1''" "''drill''" 42 cleared]
  by simp

lemma effective_duration_bounds: "60 \<le> effective_duration d \<and> effective_duration d \<le> 7200"
  by (simp add: effective_duration_def split: option.split)

lemma policy_state_locked_armed:
  "armed_until_ts p = Some u \<Longrightarrow> now < u \<Longrightarrow>
   policy_state_locked now p =
     (\<lparr>ps_armed = True, ps_armed_by = armed_by p, ps_arm_reason = arm_reason p,
       ps_arm_incident_id = arm_incident_id p, ps_armed_until = truthy_ts (Some u),
       ps_required_approvals_default = 2\<rparr>, p)"
  by (simp add: policy_state_locked_def)

lemma policy_state_locked_expired:
  "armed_until_ts p = None \<or> (\<exists>u. armed_until_ts p = Some u \<and> u \<le> now) \<Longrightarrow>
   policy_state_locked now p =
     (\<lparr>ps_armed = False, ps_armed_by = None, ps_arm_reason = None,
       ps_arm_incident_id = None, ps_armed_until = None,
       ps_required_approvals_default = 2\<rparr>, cleared)"
  by (auto simp: policy_state_locked_def cleared_def truthy_ts_def)

lemma state_calls_while_armed:
  "armed_until_ts p = Some u \<Longrightarrow> list_all (\<lambda>x. x < u) ts \<Longrightarrow>
   state_calls ts p = (replicate (length ts) (fst (policy_state_locked (u - 1) p)), p)"
  by (induction ts) (simp_all add: get_policy_state_def policy_state_locked_armed)

text \<open>
  Claim C3, as stated, at a duration argument of 5 seconds: the deadline is 60 seconds after
  the arming, so a state read 5 seconds after it still reports \<^verbatim>\<open>armed\<close>.
\<close>

theorem arm_window_literal_duration_counterexample:
  "(1000::real) + real_of_int 5 \<le> 1005 \<and>
   ps_armed (fst (get_policy_state 1005
     (snd (arm_actions 1000 1000 ''op1'' ''drill'' 42 (Some 5) cleared))))"
  by (simp add: arm_actions_def get_policy_state_def policy_state_locked_def effective_duration_def)

text \<open>
  Claim C3, amended. Clock readings are non-negative. At every read, \<^verbatim>\<open>armed\<close> holds exactly
  when \<^verbatim>\<open>armed_until\<close> is set and later than the reading. With \<open>D\<close> the duration after the
  fallback and the clamp (between 60 and 7200), arming at \<open>t\<close> gives a state that every read
  before \<open>t + D\<close> reports as armed and leaves unchanged, and that the first read at or after
  \<open>t + D\<close> reports as not armed, clearing the four fields.
\<close>

theorem arm_window_effective_duration:
  fixes t t' now late :: real and d :: "int option" and p0 p :: policy
    and actor reason :: string and incident :: int
  defines "D \<equiv> real_of_int (effective_duration d)"
  defines "r0 \<equiv> fst (arm_actions t t' actor reason incident d p0)"
  defines "p1 \<equiv> snd (arm_actions t t' actor reason incident d p0)"
  assumes now: "0 \<le> now" and t: "0 \<le> t" and t': "t' < t + D"
    and ts: "list_all (\<lambda>x. x < t + D) ts" and late: "t + D \<le> late"
  shows "(ps_armed (fst (get_policy_state now p)) \<longleftrightarrow>
            (\<exists>u. ps_armed_until (fst (get_policy_state now p)) = Some u \<and> now < u))
       \<and> 60 \<le> D \<and> D \<le> 7200
       \<and> ps_armed r0 \<and> ps_armed_until r0 = Some (t + D)
       \<and> state_calls ts p1 = (replicate (length ts) r0, p1)
       \<and> get_policy_state late p1 =
           (\<lparr>ps_armed = False, ps_armed_by = None, ps_arm_reason = None,
             ps_arm_incident_id = None, ps_armed_until = None,
             ps_required_approvals_default = 2\<rparr>, cleared)"
proof -
  have inv: "ps_armed (fst (get_policy_state now p)) \<longleftrightarrow>
            (\<exists>u. ps_armed_until (fst (get_policy_state now p)) = Some u \<and> now < u)"
    using now
    by (auto simp: get_policy_state_def policy_state_locked_def truthy_ts_def cleared_def Let_def
        split: option.splits)
  have bounds: "60 \<le> D \<and> D \<le> 7200"
    using effective_duration_bounds [of d] unfolding D_def by linarith
  let ?armed = "\<lparr>armed_until_ts = Some (t + D), armed_by = Some actor, arm_reason = Some reason,
        arm_incident_id = Some incident\<rparr>"
  have nz: "t + D \<noteq> 0" using t bounds by linarith
  have arm: "arm_actions t t' actor reason incident d p0 =
      (\<lparr>ps_armed = True, ps_armed_by = Some actor, ps_arm_reason = Some reason,
        ps_arm_incident_id = Some incident, ps_armed_until = Some (t + D),
        ps_required_approvals_default = 2\<rparr>, ?armed)"
    using t' nz by (simp add: arm_actions_def D_def policy_state_locked_armed truthy_ts_def)
  have p1: "p1 = ?armed" and r0: "r0 = fst (policy_state_locked (t + D - 1) ?armed)"
    using nz by (simp_all add: p1_def r0_def arm policy_state_locked_armed truthy_ts_def)
  have calls: "state_calls ts p1 = (replicate (length ts) r0, p1)"
    unfolding p1 r0 by (rule state_calls_while_armed [OF _ ts]) simp
  have expired: "get_policy_state late p1 =
           (\<lparr>ps_armed = False, ps_armed_by = None, ps_arm_reason = None,
             ps_arm_incident_id = None, ps_armed_until = None,
             ps_required_approvals_default = 2\<rparr>, cleared)"
    unfolding get_policy_state_def p1
    by (rule policy_state_locked_expired) (simp add: late)
  from inv bounds calls expired show ?thesis
    by (simp add: r0_def arm)
qed

theorem arm_window_effective_duration_witness:
  "state_calls [1000, 1030, 1059.5]
     (snd (arm_actions 1000 1000 ''op1'' ''drill'' 42 (Some 5) cleared)) =
     (replicate 3 (fst (arm_actions 1000 1000 ''op1'' ''drill'' 42 (Some 5) cleared)),
      snd (arm_actions 1000 1000 ''op1'' ''drill'' 42 (Some 5) cleared))
   \<and> ps_armed (fst (arm_actions 1000 1000 ''op1'' ''drill'' 42 (Some 5) cleared))
   \<and> ps_armed_until (fst (arm_actions 1000 1000 ''op1'' ''drill'' 42 (Some 5) cleared)) = Some 1060
   \<and> get_policy_state 1060 (snd (arm_actions 1000 1000 ''op1'' ''drill'' 42 (Some 5) cleared)) =
       (\<lparr>ps_armed = False, ps_armed_by = None, ps_arm_reason = None,
         ps_arm_incident_id = None, ps_armed_until = None,
         ps_required_approvals_default = 2\<rparr>, cleared)"
  using arm_window_effective_duration
    [where now = 1000 and t = 1000 and t' = 1000 and d = "Some 5" and late = 1060
       and ts = "[1000, 1030, 1059.5]" and actor = "''op1''" and reason = "''drill''"
       and incident = 42 and ?p0.0 = cleared and p = cleared]
  by (simp add: effective_duration_def get_policy_state_def policy_state_locked_def
      arm_actions_def Let_def cleared_def truthy_ts_def numeral_3_eq_3)

section \<open>Action workflow\<close>

lemma inv_empty: "one_approval_per_approver empty_service"
  by (simp add: one_approval_per_approver_def empty_service_def)

lemma inv_emit: "one_approval_per_approver (emit e s) = one_approval_per_approver s"
  by (simp add: one_approval_per_approver_def emit_def)

lemma inv_policy: "one_approval_per_approver (s\<lparr>sv_policy := p\<rparr>) = one_approval_per_approver s"
  by (simp add: one_approval_per_approver_def)

lemma inv_audit:
  "one_approval_per_approver (add_action_audit_log r e a d s) = one_approval_per_approver s"
  by (simp add: one_approval_per_approver_def add_action_audit_log_def)

lemma inv_update_status:
  "one_approval_per_approver s \<Longrightarrow>
   one_approval_per_approver (update_action_request_status r st eb s)"
  by (auto simp: one_approval_per_approver_def update_action_request_status_def
      split: option.splits if_splits)

lemma inv_create:
  "one_approval_per_approver s \<Longrightarrow>
   one_approval_per_approver (snd (create_action_request i a rb p s))"
  by (auto simp: one_approval_per_approver_def create_action_request_def Let_def
      split: if_splits)

lemma inv_add_approval:
  assumes "one_approval_per_approver s" and "sv_requests s r = Some req"
    and "\<not> already_decided approver (rq_approvals req)"
  shows "one_approval_per_approver (add_action_approval r approver d n s)"
proof -
  from assms(3) have new: "py_lower approver \<notin> (\<lambda>a. py_lower (ap_approved_by a)) ` set (rq_approvals req)"
    by (auto simp: already_decided_def list_ex_iff)
  from assms(1,2) have "distinct (map (\<lambda>a. py_lower (ap_approved_by a)) (rq_approvals req))"
    by (simp add: one_approval_per_approver_def)
  with new assms(1,2) show ?thesis
    by (auto simp: one_approval_per_approver_def add_action_approval_def split: if_splits)
qed

lemma inv_request_action:
  "one_approval_per_approver s \<Longrightarrow>
   one_approval_per_approver (snd (request_action i a rb p s))"
  using inv_create [of s i a rb p]
  by (auto simp: request_action_def Let_def inv_audit inv_emit split: prod.splits option.splits)

lemma inv_approve_action:
  assumes "one_approval_per_approver s"
  shows "one_approval_per_approver (snd (approve_action r approver d n s))"
proof (cases "get_action_request s r")
  case None
  with assms show ?thesis by (simp add: approve_action_def)
next
  case (Some req)
  show ?thesis
  proof (cases "already_decided approver (rq_approvals req)")
    case True
    with Some assms show ?thesis by (simp add: approve_action_def)
  next
    case False
    from Some have "sv_requests s r = Some req" by (simp add: get_action_request_def)
    from inv_add_approval [OF assms this False]
    have "one_approval_per_approver (add_action_approval r approver d n s)" .
    with Some False show ?thesis
      by (auto simp: approve_action_def Let_def inv_audit inv_emit inv_update_status
          split: option.splits)
  qed
qed

lemma inv_execute_action:
  "one_approval_per_approver s \<Longrightarrow>
   one_approval_per_approver (snd (execute_action now r actor s))"
  by (auto simp: execute_action_def Let_def inv_audit inv_emit inv_update_status inv_policy
      split: option.splits prod.splits)

lemma inv_api_step:
  "one_approval_per_approver s \<Longrightarrow> one_approval_per_approver (api_step s c)"
  by (cases c)
    (simp_all add: inv_request_action inv_approve_action inv_execute_action inv_emit inv_policy)

lemma inv_run_calls:
  "one_approval_per_approver s \<Longrightarrow> one_approval_per_approver (run_calls s calls)"
  unfolding run_calls_def
  by (induction calls arbitrary: s) (simp_all add: inv_api_step)

lemma distinct_map_filter_one:
  "distinct (map f xs) \<Longrightarrow> list_ex (\<lambda>a. f a = v) xs \<Longrightarrow> length (filter (\<lambda>a. f a = v) xs) = 1"
proof (induction xs)
  case Nil
  then show ?case by simp
next
  case (Cons x xs)
  show ?case
  proof (cases "f x = v")
    case True
    from Cons.prems have "f x \<notin> f ` set xs" by simp
    with True have "\<forall>a\<in>set xs. f a \<noteq> v" by (metis imageI)
    then have "filter (\<lambda>a. f a = v) xs = []" by (simp add: filter_empty_conv)
    with True show ?thesis by simp
  next
    case False
    with Cons show ?thesis by simp
  qed
qed

text \<open>
  Claim C5. In every state \<open>s\<close> the service reaches from the empty store, when the approver
  already has an approval on the request (names compared lower-cased), \<^verbatim>\<open>approve_action\<close>
  returns the request as stored and leaves the service as it was: no approval appended, no
  audit entry, no status change, no event. Every stored request holds at most one approval
  per approver, so this approver holds exactly one.
\<close>

theorem approve_action_idempotent_per_approver:
  assumes reach: "s = run_calls empty_service calls"
    and req: "get_action_request s request_id = Some req"
    and decided: "already_decided approver (rq_approvals req)"
  shows "approve_action request_id approver decision notes s =
           (Some \<lparr>rv_request = req, rv_required_approvals = None, rv_approved_count = None\<rparr>, s)
       \<and> one_approval_per_approver s
       \<and> length (filter (\<lambda>a. py_lower (ap_approved_by a) = py_lower approver)
                  (rq_approvals req)) = 1"
proof -
  have inv: "one_approval_per_approver s"
    unfolding reach by (rule inv_run_calls [OF inv_empty])
  with req have "distinct (map (\<lambda>a. py_lower (ap_approved_by a)) (rq_approvals req))"
    by (simp add: one_approval_per_approver_def get_action_request_def)
  from distinct_map_filter_one [OF this] decided
  have "length (filter (\<lambda>a. py_lower (ap_approved_by a) = py_lower approver)
                  (rq_approvals req)) = 1"
    by (simp add: already_decided_def)
  with inv req decided show ?thesis by (simp add: approve_action_def)
qed


theorem approve_action_idempotent_per_approver_witness:
  "approve_action 1 ''supervisor-a'' ''rejected'' None
     (run_calls empty_service
        [Request_action 7 ''wifi_deauth_test'' ''op1'' (PDict []),
         Approve_action 1 ''Supervisor-A'' ''approved'' None]) =
     (Some \<lparr>rv_request =
         \<lparr>rq_id = 1, rq_incident_id = 7, rq_action_type = ''wifi_deauth_test'',
          rq_requested_by = ''op1'', rq_payload = PDict [], rq_status = ''pending'',
          rq_approvals =
            [\<lparr>ap_approved_by = ''Supervisor-A'', ap_decision = ''approved'', ap_notes = None\<rparr>],
          rq_executed_by = None\<rparr>,
        rv_required_approvals = None, rv_approved_count = None\<rparr>,
      run_calls empty_service
        [Request_action 7 ''wifi_deauth_test'' ''op1'' (PDict []),
         Approve_action 1 ''Supervisor-A'' ''approved'' None])
   \<and> one_approval_per_approver
       (run_calls empty_service
        [Request_action 7 ''wifi_deauth_test'' ''op1'' (PDict []),
         Approve_action 1 ''Supervisor-A'' ''approved'' None])"
proof -
  let ?calls = "[Request_action 7 ''wifi_deauth_test'' ''op1'' (PDict []),
         Approve_action 1 ''Supervisor-A'' ''approved'' None]"
  let ?req = "\<lparr>rq_id = 1, rq_incident_id = 7, rq_action_type = ''wifi_deauth_test'',
          rq_requested_by = ''op1'', rq_payload = PDict [], rq_status = ''pending'',
          rq_approvals =
            [\<lparr>ap_approved_by = ''Supervisor-A'', ap_decision = ''approved'', ap_notes = None\<rparr>],
          rq_executed_by = None\<rparr>"
  have req: "get_action_request (run_calls empty_service ?calls) 1 = Some ?req"
    by (simp add: workflow_eval text_eval)
  have decided: "already_decided ''supervisor-a'' (rq_approvals ?req)"
    by (simp add: already_decided_def text_eval)
  from approve_action_idempotent_per_approver [OF refl req decided, of "''rejected''" None]
  show ?thesis by simp
qed

text \<open>
  Claim C1, on the code. A passive request is approved once and executed by \<^verbatim>\<open>op1\<close>; with the
  policy still armed, a second \<^verbatim>\<open>execute_action\<close> by \<^verbatim>\<open>op2\<close> returns the request with no error,
  overwrites \<^verbatim>\<open>executed_by\<close> and writes a second \<^verbatim>\<open>executed\<close> audit entry.
\<close>

theorem execute_action_on_executed_request:
  "map_option rq_status
     (sv_requests
        (run_calls empty_service
          [Request_action 7 ''passive_spectrum_capture'' ''op1'' (PDict []),
           Arm_actions 1000 1000 ''op1'' ''drill'' 7 None,
           Approve_action 1 ''supervisor-a'' ''approved'' None,
           Execute_action 1001 1 ''op1'']) 1) = Some ''executed''
   \<and> fst (execute_action 1002 1 ''op2''
        (run_calls empty_service
          [Request_action 7 ''passive_spectrum_capture'' ''op1'' (PDict []),
           Arm_actions 1000 1000 ''op1'' ''drill'' 7 None,
           Approve_action 1 ''supervisor-a'' ''approved'' None,
           Execute_action 1001 1 ''op1''])) =
      (Some \<lparr>rv_request =
          \<lparr>rq_id = 1, rq_incident_id = 7, rq_action_type = ''passive_spectrum_capture'',
           rq_requested_by = ''op1'', rq_payload = PDict [], rq_status = ''executed'',
           rq_approvals =
             [\<lparr>ap_approved_by = ''supervisor-a'', ap_decision = ''approved'', ap_notes = None\<rparr>],
           rq_executed_by = Some ''op2''\<rparr>,
         rv_required_approvals = Some 1, rv_approved_count = Some 1\<rparr>, None)
   \<and> map au_event_type (sv_audit (snd (execute_action 1002 1 ''op2''
        (run_calls empty_service
          [Request_action 7 ''passive_spectrum_capture'' ''op1'' (PDict []),
           Arm_actions 1000 1000 ''op1'' ''drill'' 7 None,
           Approve_action 1 ''supervisor-a'' ''approved'' None,
           Execute_action 1001 1 ''op1''])))) =
      [''requested'', ''approval'', ''executed'', ''executed'']"
  by (simp add: workflow_eval text_eval policy_eval)

text \<open>
  Claim C2, on the code. On one passive request: after the first approval the status is
  \<^verbatim>\<open>approved\<close>; a second supervisor's rejection moves it to \<^verbatim>\<open>rejected\<close>; \<^verbatim>\<open>execute_action\<close>,
  with the policy armed and one approval counted, then moves it from \<^verbatim>\<open>rejected\<close> to
  \<^verbatim>\<open>executed\<close> and reports no error; a third supervisor's rejection moves it from \<^verbatim>\<open>executed\<close>
  back to \<^verbatim>\<open>rejected\<close>.
\<close>

theorem rejected_request_is_executed:
  "map (\<lambda>n. status_after n veto_then_execute_calls) [1, 2, 3, 5, 6] =
     [Some ''pending'', Some ''approved'', Some ''rejected'', Some ''executed'', Some ''rejected'']
   \<and> snd (fst (execute_action 1001 1 ''op1''
        (run_calls empty_service (take 4 veto_then_execute_calls)))) = None"
  by (simp add: status_after_def veto_then_execute_calls_def workflow_eval text_eval policy_eval)

section \<open>Remote-ID decoder\<close>











section \<open>RF detector\<close>




























end
